theory Spec2Isabelle
  imports Complex_Main "HOL-Library.Word" "HOL-Library.Char_ord" "HOL-Library.List_Lexorder"
    "HOL-Library.AList"
begin

section \<open>SearchYAML: the store and its indexes\<close>

text \<open>
  A shallow embedding of package \<open>storage\<close>: the trigram, vector and B-tree indexes, the
  index manager, and the memory-mapped store with its search planner.

  Conventions of the embedding.
  \<^item> A Go map is an association list with one pair per key; \<open>map_of\<close> reads it,
    \<open>AList.update\<close> writes it and \<open>AList.delete\<close> removes a key. The order of the
    list stands for the order in which \<open>range\<close> visits the map, which Go leaves open.
  \<^item> A Go set \<open>map[string]struct{}\<close> is a list without repetitions.
  \<^item> The \<open>float32\<close> and \<open>float64\<close> scores and vector components are idealised as
    \<open>real\<close>: no rounding, no NaN. The float64 arithmetic of \<open>Duration.Seconds\<close>, which
    decides the stored TTL, is modelled with its rounding.
  \<^item> A panic is the left summand of \<open>panic + 'a\<close>; a returned \<open>error\<close> is a value.
  \<^item> \<open>time.Now().Unix()\<close> is an argument \<open>now\<close> of each operation that reads the clock.
  \<^item> The \<open>int64\<close> fields of an entry and the clock readings are 64-bit words, added
    with wrap-around and compared as signed numbers (\<open><s\<close>, \<open>\<le>s\<close>).
\<close>

subsection \<open>Values, errors and panics\<close>

text \<open>The dynamic types an \<open>interface{}\<close> document value takes.\<close>

datatype val =
    VNil
  | VBool bool
  | VInt int
  | VFloat real
  | VString string
  | VFloats "real list"
  | VSeq "val list"
  | VMap "(string \<times> val) list"

datatype panic =
    InterfaceConversion
  | UncomparableType
  | SliceBoundsOutOfRange

datatype error =
    UnknownIndexType string
  | IndexNotFound string string
  | VectorDimensionMismatch int int
  | QueryDimensionMismatch int int
  | FailedToUpdateIndexes error
  | VectorSearchError error
  | FilterSearchError error
  | FailedToEncode error
  | FailedToGrowFile error
  | FailedToSyncBeforeResize error
  | FailedToTruncate
  | FailedToRemap
  | FailedToMapFile
  | FailedToDecode error
  | FailedToSyncOnClose error
  | ErrorLoadingExistingData error
  | CodecError

subsection \<open>Ordered index: \<open>indexItem\<close> and the B-tree\<close>

record indexItem =
  item_key :: string
  item_value :: val

text \<open>
  \<open>indexItem.Less\<close>: a type switch on the receiver's value, then a type assertion on the
  argument's value. The assertion panics when the argument's dynamic type differs.
\<close>

definition Less :: "indexItem \<Rightarrow> indexItem \<Rightarrow> panic + bool" where
  "Less i than =
     (case item_value i of
        VString v \<Rightarrow>
          (case item_value than of VString w \<Rightarrow> Inr (v < w) | _ \<Rightarrow> Inl InterfaceConversion)
      | VInt v \<Rightarrow>
          (case item_value than of VInt w \<Rightarrow> Inr (v < w) | _ \<Rightarrow> Inl InterfaceConversion)
      | VFloat v \<Rightarrow>
          (case item_value than of VFloat w \<Rightarrow> Inr (v < w) | _ \<Rightarrow> Inl InterfaceConversion)
      | _ \<Rightarrow> Inr False)"

text \<open>
  The B-tree is \<open>github.com/google/btree\<close>, a library outside the repository. It is
  modelled here as far as the index manager uses it, for a tree that is a single leaf
  (degree 32: up to 63 items): the node's items in ascending order. \<open>sort_Search\<close> is Go's
  \<open>sort.Search\<close>, a binary search for the least index at which the predicate holds.
  \<open>items_find\<close> is the library's lookup in a node: search with \<open>item.Less(s[i])\<close>, then
  call the item at \<open>i - 1\<close> equal when \<open>s[i-1].Less(item)\<close> is false.
\<close>

function sort_Search :: "nat \<Rightarrow> nat \<Rightarrow> (nat \<Rightarrow> panic + bool) \<Rightarrow> panic + nat" where
  "sort_Search i j f =
     (if i < j then
        (case f ((i + j) div 2) of
           Inl p \<Rightarrow> Inl p
         | Inr b \<Rightarrow> if \<not> b then sort_Search ((i + j) div 2 + 1) j f
                    else sort_Search i ((i + j) div 2) f)
      else Inr i)"
  by pat_completeness auto
termination
  by (relation "measure (\<lambda>(i, j, f). j - i)") auto

declare sort_Search.simps [simp del]

definition items_find :: "indexItem list \<Rightarrow> indexItem \<Rightarrow> panic + (nat \<times> bool)" where
  "items_find s item =
     (case sort_Search 0 (length s) (\<lambda>i. Less item (s ! i)) of
        Inl p \<Rightarrow> Inl p
      | Inr i \<Rightarrow>
          if i > 0 then
            (case Less (s ! (i - 1)) item of
               Inl p \<Rightarrow> Inl p
             | Inr b \<Rightarrow> if \<not> b then Inr (i - 1, True) else Inr (i, False))
          else Inr (i, False))"

definition ReplaceOrInsert :: "indexItem list \<Rightarrow> indexItem \<Rightarrow> panic + indexItem list" where
  "ReplaceOrInsert t item =
     (case items_find t item of
        Inl p \<Rightarrow> Inl p
      | Inr (i, found) \<Rightarrow>
          if found then Inr (t[i := item]) else Inr (take i t @ item # drop i t))"

definition tree_Delete :: "indexItem list \<Rightarrow> indexItem \<Rightarrow> panic + indexItem list" where
  "tree_Delete t item =
     (if t = [] then Inr t
      else
        (case items_find t item of
           Inl p \<Rightarrow> Inl p
         | Inr (i, found) \<Rightarrow> if found then Inr (take i t @ drop (Suc i) t) else Inr t))"

text \<open>
  \<open>AscendGreaterOrEqual\<close> hands the iterator every item from the position of the pivot to
  the end, while the iterator returns true; the iterator of \<open>IndexManager.Search\<close> always
  does. The result is the list of items visited, in order.
\<close>

definition AscendGreaterOrEqual :: "indexItem list \<Rightarrow> indexItem \<Rightarrow> panic + indexItem list" where
  "AscendGreaterOrEqual t pivot =
     (if t = [] then Inr []
      else (case items_find t pivot of Inl p \<Rightarrow> Inl p | Inr (i, found) \<Rightarrow> Inr (drop i t)))"

definition tree_Len :: "indexItem list \<Rightarrow> int" where
  "tree_Len t = int (length t)"

subsection \<open>Vector index\<close>

record VectorIndex =
  vi_vectors :: "(string \<times> real list) list"
  vi_dim :: int

record VectorSearchResult =
  VKey :: string
  VScore :: real

definition NewVectorIndex :: "int \<Rightarrow> VectorIndex" where
  "NewVectorIndex dimensions = \<lparr>vi_vectors = [], vi_dim = dimensions\<rparr>"

definition normalizeVector :: "real list \<Rightarrow> real list" where
  "normalizeVector vec =
     (let sum = foldl (\<lambda>s v. s + v * v) 0 vec;
          magnitude = sqrt sum
      in if magnitude > 0 then map (\<lambda>v. v / magnitude) vec else vec)"

text \<open>
  \<open>cosineSimilarity\<close> ranges over the indices of \<open>a\<close> and reads \<open>b\<close> at each: both
  arguments have the index's dimension wherever it is called.
\<close>

definition cosineSimilarity :: "real list \<Rightarrow> real list \<Rightarrow> real" where
  "cosineSimilarity a b = foldl (\<lambda>dotProduct (x, y). dotProduct + x * y) 0 (zip a b)"

definition VectorIndex_Update :: "VectorIndex \<Rightarrow> string \<Rightarrow> real list \<Rightarrow> error option \<times> VectorIndex" where
  "VectorIndex_Update vi k vector =
     (if int (length vector) \<noteq> vi_dim vi
      then (Some (VectorDimensionMismatch (vi_dim vi) (int (length vector))), vi)
      else (None, vi\<lparr>vi_vectors := AList.update k (normalizeVector vector) (vi_vectors vi)\<rparr>))"

definition VectorIndex_Remove :: "VectorIndex \<Rightarrow> string \<Rightarrow> VectorIndex" where
  "VectorIndex_Remove vi k = vi\<lparr>vi_vectors := AList.delete k (vi_vectors vi)\<rparr>"

text \<open>
  \<open>sort.Slice\<close> with the comparison \<open>results[i].Score > results[j].Score\<close>: the scores end
  in descending order. The order of ties is open in Go; the stable insertion sort on the
  negated score fixes one.
\<close>

definition sortVectorResults :: "VectorSearchResult list \<Rightarrow> VectorSearchResult list" where
  "sortVectorResults rs = sort_key (\<lambda>r. - VScore r) rs"

text \<open>
  \<open>VectorIndex.Search\<close>: \<open>results[:k]\<close> after \<open>k\<close> is capped at the length. A negative
  \<open>k\<close> is a slice bound out of range.
\<close>

definition VectorIndex_Search ::
  "VectorIndex \<Rightarrow> real list \<Rightarrow> int \<Rightarrow> panic + (error + VectorSearchResult list)" where
  "VectorIndex_Search vi query k =
     (if int (length query) \<noteq> vi_dim vi
      then Inr (Inl (QueryDimensionMismatch (vi_dim vi) (int (length query))))
      else
        (let normalized = normalizeVector query;
             results = map (\<lambda>(ky, vec). \<lparr>VKey = ky, VScore = cosineSimilarity normalized vec\<rparr>)
                         (vi_vectors vi);
             sorted_results = sortVectorResults results;
             k' = (if k > int (length sorted_results) then int (length sorted_results) else k)
         in if k' < 0 then Inl SliceBoundsOutOfRange
            else Inr (Inr (take (nat k') sorted_results))))"

subsection \<open>Trigram index\<close>

record TrigramIndex =
  trigrams :: "(string \<times> string list) list"
  docs :: "(string \<times> string) list"

record TextSearchResult =
  TKey :: string
  TScore :: real
  TText :: string

definition NewTrigramIndex :: TrigramIndex where
  "NewTrigramIndex = \<lparr>trigrams = [], docs = []\<rparr>"

text \<open>
  \<open>generateTrigrams\<close>. \<open>strings.ToLower\<close> belongs to Go's standard library and is the
  parameter \<open>toLower\<close>; the windows are taken over the bytes of its result.
\<close>

fun windows3 :: "string \<Rightarrow> string list" where
  "windows3 (a # b # c # rest) = [a, b, c] # windows3 (b # c # rest)"
| "windows3 _ = []"

definition generateTrigrams :: "(string \<Rightarrow> string) \<Rightarrow> string \<Rightarrow> string list" where
  "generateTrigrams toLower txt =
     (let t = toLower txt in if length t < 3 then [t] else windows3 t)"

text \<open>
  \<open>removeDocumentTrigrams\<close>: for each trigram of the text, delete the key from its posting
  set and drop the posting set when it is empty.
\<close>

definition removeDocumentTrigram ::
  "string \<Rightarrow> (string \<times> string list) list \<Rightarrow> string \<Rightarrow> (string \<times> string list) list" where
  "removeDocumentTrigram k tg trigram =
     (case map_of tg trigram of
        None \<Rightarrow> tg
      | Some ds \<Rightarrow>
          (let ds' = removeAll k ds
           in if length ds' = 0 then AList.delete trigram tg else AList.update trigram ds' tg))"

definition removeDocumentTrigrams ::
  "(string \<Rightarrow> string) \<Rightarrow> TrigramIndex \<Rightarrow> string \<Rightarrow> string \<Rightarrow> TrigramIndex" where
  "removeDocumentTrigrams toLower ti k txt =
     ti\<lparr>trigrams := foldl (removeDocumentTrigram k) (trigrams ti) (generateTrigrams toLower txt)\<rparr>"

definition addDocumentTrigram ::
  "string \<Rightarrow> (string \<times> string list) list \<Rightarrow> string \<Rightarrow> (string \<times> string list) list" where
  "addDocumentTrigram k tg trigram =
     (case map_of tg trigram of
        None \<Rightarrow> AList.update trigram [k] tg
      | Some ds \<Rightarrow> AList.update trigram (List.insert k ds) tg)"

definition TrigramIndex_Update ::
  "(string \<Rightarrow> string) \<Rightarrow> TrigramIndex \<Rightarrow> string \<Rightarrow> string \<Rightarrow> TrigramIndex" where
  "TrigramIndex_Update toLower ti k txt =
     (let ti1 = (case map_of (docs ti) k of
                   Some oldText \<Rightarrow> removeDocumentTrigrams toLower ti k oldText
                 | None \<Rightarrow> ti);
          ti2 = ti1\<lparr>docs := AList.update k txt (docs ti1)\<rparr>
      in ti2\<lparr>trigrams := foldl (addDocumentTrigram k) (trigrams ti2) (generateTrigrams toLower txt)\<rparr>)"

definition TrigramIndex_Remove ::
  "(string \<Rightarrow> string) \<Rightarrow> TrigramIndex \<Rightarrow> string \<Rightarrow> TrigramIndex" where
  "TrigramIndex_Remove toLower ti k =
     (case map_of (docs ti) k of
        Some txt \<Rightarrow>
          (let ti1 = removeDocumentTrigrams toLower ti k txt
           in ti1\<lparr>docs := AList.delete k (docs ti1)\<rparr>)
      | None \<Rightarrow> ti)"

text \<open>
  \<open>TrigramIndex.Search\<close>. \<open>scores[doc]++\<close> once for every occurrence of a query trigram
  and every key of its posting set; then one result per key of \<open>scores\<close>.
\<close>

definition bumpScore :: "(string \<times> nat) list \<Rightarrow> string \<Rightarrow> (string \<times> nat) list" where
  "bumpScore scores doc =
     AList.update doc (case map_of scores doc of None \<Rightarrow> 1 | Some n \<Rightarrow> n + 1) scores"

definition countMatches ::
  "(string \<times> string list) list \<Rightarrow> string list \<Rightarrow> (string \<times> nat) list" where
  "countMatches tg queryTrigrams =
     foldl (\<lambda>scores trigram.
              case map_of tg trigram of
                Some ds \<Rightarrow> foldl bumpScore scores ds
              | None \<Rightarrow> scores)
       [] queryTrigrams"

definition sortTextResults :: "TextSearchResult list \<Rightarrow> TextSearchResult list" where
  "sortTextResults rs = sort_key (\<lambda>r. - TScore r) rs"

definition TrigramIndex_Search ::
  "(string \<Rightarrow> string) \<Rightarrow> TrigramIndex \<Rightarrow> string \<Rightarrow> int \<Rightarrow> TextSearchResult list" where
  "TrigramIndex_Search toLower ti query maxResults =
     (let queryTrigrams = generateTrigrams toLower query;
          scores = countMatches (trigrams ti) queryTrigrams;
          maxQueryTrigrams = length queryTrigrams;
          results = map (\<lambda>(doc, matches).
                       \<lparr>TKey = doc,
                        TScore = real matches / real maxQueryTrigrams,
                        TText = (case map_of (docs ti) doc of Some t \<Rightarrow> t | None \<Rightarrow> [])\<rparr>)
                      scores;
          results' = sortTextResults results
      in if maxResults > 0 \<and> int (length results') > maxResults
         then take (nat maxResults) results' else results')"

definition FuzzySearch ::
  "(string \<Rightarrow> string) \<Rightarrow> TrigramIndex \<Rightarrow> string \<Rightarrow> real \<Rightarrow> int \<Rightarrow> TextSearchResult list" where
  "FuzzySearch toLower ti query minScore maxResults =
     (let results = TrigramIndex_Search toLower ti query 0;
          filtered = filter (\<lambda>result. TScore result \<ge> minScore) results
      in if maxResults > 0 \<and> int (length filtered) > maxResults
         then take (nat maxResults) filtered else filtered)"

subsection \<open>Index manager\<close>

record IndexManager =
  im_trees :: "(string \<times> indexItem list) list"
  im_vectors :: "(string \<times> VectorIndex) list"
  im_text :: "(string \<times> TrigramIndex) list"

definition NewIndexManager :: IndexManager where
  "NewIndexManager = \<lparr>im_trees = [], im_vectors = [], im_text = []\<rparr>"

definition AddIndex :: "IndexManager \<Rightarrow> string \<Rightarrow> string \<Rightarrow> error option \<times> IndexManager" where
  "AddIndex im field indexType =
     (if indexType = ''btree'' then
        (None, if map_of (im_trees im) field = None
               then im\<lparr>im_trees := AList.update field [] (im_trees im)\<rparr> else im)
      else if indexType = ''vector'' then
        (None, if map_of (im_vectors im) field = None
               then im\<lparr>im_vectors := AList.update field (NewVectorIndex 384) (im_vectors im)\<rparr>
               else im)
      else if indexType = ''text'' then
        (None, if map_of (im_text im) field = None
               then im\<lparr>im_text := AList.update field NewTrigramIndex (im_text im)\<rparr> else im)
      else (Some (UnknownIndexType indexType), im))"

text \<open>
  \<open>==\<close> on two \<open>interface{}\<close> values: false when the dynamic types differ, a panic
  when they agree on a type that is not comparable (slices and maps).
\<close>

fun val_eq :: "val \<Rightarrow> val \<Rightarrow> panic + bool" where
  "val_eq (VFloats a) (VFloats b) = Inl UncomparableType"
| "val_eq (VSeq a) (VSeq b) = Inl UncomparableType"
| "val_eq (VMap a) (VMap b) = Inl UncomparableType"
| "val_eq a b = Inr (a = b)"

text \<open>
  \<open>IndexManager.Update\<close>, one loop per family of indexes. The error that
  \<open>VectorIndex.Update\<close> returns is not looked at (\<open>snd\<close> keeps the index only), and the
  function ends in \<open>return nil\<close>.
\<close>

fun update_trees ::
  "string \<Rightarrow> (string \<times> val) list \<Rightarrow> (string \<times> indexItem list) list
     \<Rightarrow> panic + (string \<times> indexItem list) list" where
  "update_trees k m [] = Inr []"
| "update_trees k m ((field, tree) # rest) =
     (case map_of m field of
        Some fieldValue \<Rightarrow>
          (case ReplaceOrInsert tree \<lparr>item_key = k, item_value = fieldValue\<rparr> of
             Inl p \<Rightarrow> Inl p
           | Inr tree' \<Rightarrow>
               (case update_trees k m rest of
                  Inl p \<Rightarrow> Inl p
                | Inr rest' \<Rightarrow> Inr ((field, tree') # rest')))
      | None \<Rightarrow>
          (case update_trees k m rest of
             Inl p \<Rightarrow> Inl p
           | Inr rest' \<Rightarrow> Inr ((field, tree) # rest')))"

definition update_vectors ::
  "string \<Rightarrow> (string \<times> val) list \<Rightarrow> (string \<times> VectorIndex) list \<Rightarrow> (string \<times> VectorIndex) list" where
  "update_vectors k m vs =
     map (\<lambda>(field, vec).
            case map_of m field of
              Some (VFloats vectors) \<Rightarrow> (field, snd (VectorIndex_Update vec k vectors))
            | _ \<Rightarrow> (field, vec))
         vs"

definition update_text ::
  "(string \<Rightarrow> string) \<Rightarrow> string \<Rightarrow> (string \<times> val) list \<Rightarrow> (string \<times> TrigramIndex) list
     \<Rightarrow> (string \<times> TrigramIndex) list" where
  "update_text toLower k m ts =
     map (\<lambda>(field, idx).
            case map_of m field of
              Some (VString txt) \<Rightarrow> (field, TrigramIndex_Update toLower idx k txt)
            | _ \<Rightarrow> (field, idx))
         ts"

definition IndexManager_Update ::
  "(string \<Rightarrow> string) \<Rightarrow> IndexManager \<Rightarrow> string \<Rightarrow> val \<Rightarrow> panic + (error option \<times> IndexManager)" where
  "IndexManager_Update toLower im k v =
     (case v of
        VMap m \<Rightarrow>
          (case update_trees k m (im_trees im) of
             Inl p \<Rightarrow> Inl p
           | Inr trees' \<Rightarrow>
               Inr (None, im\<lparr>im_trees := trees',
                              im_vectors := update_vectors k m (im_vectors im),
                              im_text := update_text toLower k m (im_text im)\<rparr>))
      | _ \<Rightarrow> Inr (None, im))"

text \<open>
  \<open>IndexManager.Remove\<close>: the B-tree indexes are probed with \<open>indexItem{key, nil}\<close>.
\<close>

fun remove_trees ::
  "string \<Rightarrow> (string \<times> indexItem list) list \<Rightarrow> panic + (string \<times> indexItem list) list" where
  "remove_trees k [] = Inr []"
| "remove_trees k ((field, tree) # rest) =
     (case tree_Delete tree \<lparr>item_key = k, item_value = VNil\<rparr> of
        Inl p \<Rightarrow> Inl p
      | Inr tree' \<Rightarrow>
          (case remove_trees k rest of
             Inl p \<Rightarrow> Inl p
           | Inr rest' \<Rightarrow> Inr ((field, tree') # rest')))"

definition IndexManager_Remove ::
  "(string \<Rightarrow> string) \<Rightarrow> IndexManager \<Rightarrow> string \<Rightarrow> panic + IndexManager" where
  "IndexManager_Remove toLower im k =
     (case remove_trees k (im_trees im) of
        Inl p \<Rightarrow> Inl p
      | Inr trees' \<Rightarrow>
          Inr (im\<lparr>im_trees := trees',
                   im_vectors := map (\<lambda>(field, vec). (field, VectorIndex_Remove vec k)) (im_vectors im),
                   im_text := map (\<lambda>(field, idx). (field, TrigramIndex_Remove toLower idx k))
                                (im_text im)\<rparr>))"

definition IndexManager_RemoveIndex ::
  "IndexManager \<Rightarrow> string \<Rightarrow> string \<Rightarrow> error option \<times> IndexManager" where
  "IndexManager_RemoveIndex im field indexType =
     (if indexType = ''btree'' then
        (if map_of (im_trees im) field \<noteq> None
         then (None, im\<lparr>im_trees := AList.delete field (im_trees im)\<rparr>)
         else (Some (IndexNotFound field indexType), im))
      else if indexType = ''vector'' then
        (if map_of (im_vectors im) field \<noteq> None
         then (None, im\<lparr>im_vectors := AList.delete field (im_vectors im)\<rparr>)
         else (Some (IndexNotFound field indexType), im))
      else if indexType = ''text'' then
        (if map_of (im_text im) field \<noteq> None
         then (None, im\<lparr>im_text := AList.delete field (im_text im)\<rparr>)
         else (Some (IndexNotFound field indexType), im))
      else (Some (UnknownIndexType indexType), im))"

text \<open>
  \<open>IndexManager.Search\<close>. For every filter field that has a B-tree: the keys of the
  visited items whose value equals the filter value; the first such field sets the
  result, each later one intersects it.
\<close>

fun fieldMatches :: "val \<Rightarrow> indexItem list \<Rightarrow> panic + string list" where
  "fieldMatches v [] = Inr []"
| "fieldMatches v (item # items) =
     (case val_eq (item_value item) v of
        Inl p \<Rightarrow> Inl p
      | Inr b \<Rightarrow>
          (case fieldMatches v items of
             Inl p \<Rightarrow> Inl p
           | Inr ks \<Rightarrow> Inr (if b then List.insert (item_key item) ks else ks)))"

fun searchFilters ::
  "(string \<times> indexItem list) list \<Rightarrow> (string \<times> val) list \<Rightarrow> string list \<Rightarrow> bool
     \<Rightarrow> panic + string list" where
  "searchFilters ts [] results first = Inr results"
| "searchFilters ts ((field, v) # query) results first =
     (case map_of ts field of
        Some tree \<Rightarrow>
          (case AscendGreaterOrEqual tree \<lparr>item_key = [], item_value = v\<rparr> of
             Inl p \<Rightarrow> Inl p
           | Inr visited \<Rightarrow>
               (case fieldMatches v visited of
                  Inl p \<Rightarrow> Inl p
                | Inr fieldResults \<Rightarrow>
                    if first then searchFilters ts query fieldResults False
                    else searchFilters ts query
                           (filter (\<lambda>k. k \<in> set fieldResults) results) False))
      | None \<Rightarrow> searchFilters ts query results first)"

definition IndexManager_Search ::
  "IndexManager \<Rightarrow> (string \<times> val) list \<Rightarrow> panic + (error + string list)" where
  "IndexManager_Search im query =
     (case searchFilters (im_trees im) query [] True of
        Inl p \<Rightarrow> Inl p
      | Inr keys \<Rightarrow> Inr (Inr keys))"


subsection \<open>Store\<close>

type_synonym byte = "8 word"
type_synonym int64 = "64 word"

record Entry =
  Value :: val
  Timestamp :: int64
  TTL :: int64

text \<open>
  \<open>StoreStats\<close>: the counters and sizes. The latency averages and the wall-clock fields
  are left out; the operations modelled here write them and never read them.
\<close>

record StoreStats =
  Reads :: nat
  Writes :: nat
  Deletes :: nat
  SyncCount :: nat
  DataSize :: int
  FileSize :: int
  EntryCount :: nat
  ExpiredCount :: nat
  TextIndexes_Count :: int
  TextIndexes_EntryCount :: int
  VectorIndexes_Count :: int
  VectorIndexes_EntryCount :: int
  BTreeIndexes_Count :: int
  BTreeIndexes_EntryCount :: int

text \<open>
  \<open>Store\<close>. \<open>mm\<close> is the mapped region; the mapping is shared, so its bytes are the
  file's bytes. \<open>locked\<close> says that the store's write lock is held: the lock is a
  \<open>sync.RWMutex\<close>, and \<open>Lock\<close> on a held lock does not return.
\<close>

record Store =
  mm :: "byte list"
  data :: "(string \<times> Entry) list"
  dirty :: bool
  stats :: StoreStats
  indexes :: IndexManager
  locked :: bool

text \<open>
  The codec is \<open>gopkg.in/yaml.v3\<close> behind \<open>FastYAMLEncoder\<close>: \<open>Encode\<close> and \<open>Decode\<close>
  hand the document map to the library. Both are parameters of the operations that use
  them.
\<close>

type_synonym encoder = "(string \<times> Entry) list \<Rightarrow> error + byte list"
type_synonym decoder = "byte list \<Rightarrow> error + (string \<times> Entry) list"

definition zeroStats :: StoreStats where
  "zeroStats = \<lparr>Reads = 0, Writes = 0, Deletes = 0, SyncCount = 0, DataSize = 0, FileSize = 0,
     EntryCount = 0, ExpiredCount = 0, TextIndexes_Count = 0, TextIndexes_EntryCount = 0,
     VectorIndexes_Count = 0, VectorIndexes_EntryCount = 0, BTreeIndexes_Count = 0,
     BTreeIndexes_EntryCount = 0\<rparr>"

definition updateStats :: "Store \<Rightarrow> int \<Rightarrow> Store" where
  "updateStats s dataSize =
     s\<lparr>stats := (stats s)\<lparr>DataSize := dataSize,
                            EntryCount := length (data s),
                            FileSize := int (length (mm s))\<rparr>\<rparr>"


definition updateWriteStats :: "Store \<Rightarrow> Store" where
  "updateWriteStats s =
     s\<lparr>stats := (stats s)\<lparr>Writes := Writes (stats s) + 1, EntryCount := length (data s)\<rparr>\<rparr>"


definition Set ::
  "(string \<Rightarrow> string) \<Rightarrow> int64 \<Rightarrow> Store \<Rightarrow> string \<Rightarrow> val \<Rightarrow> panic + (error option \<times> Store)" where
  "Set toLower now s k v =
     (let entry = \<lparr>Value = v, Timestamp = now, TTL = 0\<rparr>;
          s1 = s\<lparr>data := AList.update k entry (data s), dirty := True\<rparr>
      in case IndexManager_Update toLower (indexes s1) k v of
           Inl p \<Rightarrow> Inl p
         | Inr (err, im) \<Rightarrow>
             (case err of
                Some e \<Rightarrow> Inr (Some (FailedToUpdateIndexes e), updateWriteStats (s1\<lparr>indexes := im\<rparr>))
              | None \<Rightarrow> Inr (None, updateWriteStats (s1\<lparr>indexes := im\<rparr>))))"

text \<open>
  \<open>int64(ttl.Seconds())\<close>. A \<open>time.Duration\<close> is an \<open>int64\<close> count of nanoseconds,
  here the integer \<open>ttl\<close>. \<open>Seconds\<close> of the standard library is
  \<^verbatim>\<open>sec := d / Second; nsec := d % Second; return float64(sec) + float64(nsec)/1e9\<close>
  in float64 arithmetic, so the quotient and the sum are rounded:
  \<^item> \<open>quot\<close> is Go's integer division, which truncates towards zero; the remainder has
    the sign of the dividend;
  \<^item> \<open>float64 x\<close> is the binary64 number nearest to \<open>x\<close>, ties to the even
    significand: 53 significant bits at the exponent of \<open>x\<close>. The numbers that occur here
    lie between \<open>10^-9\<close> and \<open>2^34\<close> in magnitude, far from the exponent limits;
  \<^item> \<open>int64_of_float\<close> is the conversion \<open>int64(f)\<close>, which drops the fraction.
\<close>

definition roundHalfEven :: "real \<Rightarrow> int" where
  "roundHalfEven x =
     (let f = \<lfloor>x\<rfloor>; r = x - of_int f
      in if r < 1 / 2 then f else if 1 / 2 < r then f + 1 else if even f then f else f + 1)"

definition float64 :: "real \<Rightarrow> real" where
  "float64 x =
     (if x = 0 then 0
      else (let ulp = 2 powr (of_int \<lfloor>log 2 \<bar>x\<bar>\<rfloor> - 52)
            in of_int (roundHalfEven (x / ulp)) * ulp))"






definition Delete :: "(string \<Rightarrow> string) \<Rightarrow> Store \<Rightarrow> string \<Rightarrow> panic + Store" where
  "Delete toLower s k =
     (if map_of (data s) k \<noteq> None then
        (case IndexManager_Remove toLower (indexes s) k of
           Inl p \<Rightarrow> Inl p
         | Inr im \<Rightarrow>
             Inr (s\<lparr>data := AList.delete k (data s), dirty := True, indexes := im,
                     stats := (stats s)\<lparr>Deletes := Deletes (stats s) + 1\<rparr>\<rparr>))
      else Inr s)"

definition CreateIndex :: "Store \<Rightarrow> string \<Rightarrow> string \<Rightarrow> error option \<times> Store" where
  "CreateIndex s field indexType =
     (case AddIndex (indexes s) field indexType of (err, im) \<Rightarrow> (err, s\<lparr>indexes := im\<rparr>))"

definition RemoveIndex :: "Store \<Rightarrow> string \<Rightarrow> string \<Rightarrow> error option \<times> Store" where
  "RemoveIndex s field indexType =
     (case IndexManager_RemoveIndex (indexes s) field indexType of
        (err, im) \<Rightarrow> (err, s\<lparr>indexes := im\<rparr>))"

subsection \<open>Sync, grow and resize\<close>

text \<open>
  The loop of \<open>growFile\<close> on \<open>int64\<close>: doubling wraps around, the comparison is signed.
  A run that never leaves the loop is \<open>None\<close>.
\<close>

partial_function (option) growLoop :: "64 word \<Rightarrow> 64 word \<Rightarrow> 64 word option" where
  "growLoop newSize requiredSize =
     (if newSize <s requiredSize then growLoop (newSize * 2) requiredSize else Some newSize)"

definition cleanData :: "int64 \<Rightarrow> (string \<times> Entry) list \<Rightarrow> (string \<times> Entry) list" where
  "cleanData now d =
     filter (\<lambda>(k, entry). TTL entry = 0 \<or> now \<le>s Timestamp entry + TTL entry) d"

text \<open>
  \<open>sync\<close>, \<open>growFile\<close> and \<open>resize\<close> call each other. The result \<open>None\<close> is a call that
  does not return: \<open>resize\<close> starts with \<open>s.Lock()\<close>, which waits for ever when the lock
  is held, and \<open>growFile\<close> may stay in its loop. Otherwise the result is the returned
  error and the store. \<open>resize\<close> releases the lock on every return. The file operations
  (flush, unmap, open) are taken to succeed; truncating to a negative size and mapping
  an empty file fail, and then \<open>s.mm\<close> stays unmapped (empty). The clock counts whole
  seconds, and one call of \<open>sync\<close> with the calls nested in it is taken to read the
  same second \<open>now\<close>.
\<close>

function sync :: "encoder \<Rightarrow> int64 \<Rightarrow> Store \<Rightarrow> (error option \<times> Store) option"
  and growFile :: "encoder \<Rightarrow> int64 \<Rightarrow> Store \<Rightarrow> int64 \<Rightarrow> (error option \<times> Store) option"
  and resize :: "encoder \<Rightarrow> int64 \<Rightarrow> Store \<Rightarrow> int64 \<Rightarrow> (error option \<times> Store) option" where
  "sync enc now s =
     (if \<not> dirty s then Some (None, s)
      else
        (case enc (cleanData now (data s)) of
           Inl err \<Rightarrow> Some (Some (FailedToEncode err), s)
         | Inr bytes \<Rightarrow>
             (case (if length bytes > length (mm s)
                    then growFile enc now s (of_nat (length bytes))
                    else Some (None, s)) of
                None \<Rightarrow> None
              | Some (Some err, s1) \<Rightarrow> Some (Some (FailedToGrowFile err), s1)
              | Some (None, s1) \<Rightarrow>
                  Some (None,
                    updateStats
                      (s1\<lparr>mm := take (length (mm s1)) bytes
                                   @ replicate (length (mm s1) - length bytes) 0,
                           dirty := False\<rparr>)
                      (int (length bytes))))))"
| "growFile enc now s requiredSize =
     (case growLoop (of_nat (length (mm s)) * 2) requiredSize of
        None \<Rightarrow> None
      | Some newSize \<Rightarrow> resize enc now s newSize)"
| "resize enc now s newSize =
     (if locked s then None
      else
        (case sync enc now (s\<lparr>locked := True\<rparr>) of
           None \<Rightarrow> None
         | Some (Some err, s1) \<Rightarrow> Some (Some (FailedToSyncBeforeResize err), s1\<lparr>locked := False\<rparr>)
         | Some (None, s1) \<Rightarrow>
             if sint newSize < 0
             then Some (Some FailedToTruncate, s1\<lparr>mm := [], locked := False\<rparr>)
             else if newSize = 0
             then Some (Some FailedToRemap, s1\<lparr>mm := [], locked := False\<rparr>)
             else
               Some (None,
                 s1\<lparr>mm := take (unat newSize)
                              (mm s1 @ replicate (unat newSize - length (mm s1)) 0),
                     locked := False\<rparr>)))"
  by pat_completeness auto
termination
  by (relation "measure (\<lambda>x. case x of
          Inl (enc, now, s) \<Rightarrow> (if locked s then 2 else 5)
        | Inr (Inl (enc, now, s, r)) \<Rightarrow> (if locked s then 1 else 4)
        | Inr (Inr (enc, now, s, r)) \<Rightarrow> (if locked s then 0 else 3))") auto

declare sync.simps [simp del] growFile.simps [simp del] resize.simps [simp del]

text \<open>\<open>Sync\<close> calls \<open>sync\<close> as it is; \<open>Close\<close> takes the lock first.\<close>

definition Store_Sync :: "encoder \<Rightarrow> int64 \<Rightarrow> Store \<Rightarrow> (error option \<times> Store) option" where
  "Store_Sync enc now s = sync enc now s"

definition Close :: "encoder \<Rightarrow> int64 \<Rightarrow> Store \<Rightarrow> (error option \<times> Store) option" where
  "Close enc now s =
     (if locked s then None
      else
        (case sync enc now (s\<lparr>locked := True\<rparr>) of
           None \<Rightarrow> None
         | Some (Some err, s1) \<Rightarrow> Some (Some (FailedToSyncOnClose err), s1\<lparr>locked := False\<rparr>)
         | Some (None, s1) \<Rightarrow> Some (None, s1\<lparr>locked := False\<rparr>)))"

subsection \<open>Load and construction\<close>

definition findContentSize :: "byte list \<Rightarrow> nat" where
  "findContentSize m = length (takeWhile (\<lambda>b. b \<noteq> 0) m)"

definition expired :: "int64 \<Rightarrow> Entry \<Rightarrow> bool" where
  "expired now entry \<longleftrightarrow> 0 <s TTL entry \<and> Timestamp entry + TTL entry <s now"

fun load_indexes ::
  "(string \<Rightarrow> string) \<Rightarrow> int64 \<Rightarrow> IndexManager \<Rightarrow> (string \<times> Entry) list
     \<Rightarrow> panic + (error option \<times> IndexManager)" where
  "load_indexes toLower now im [] = Inr (None, im)"
| "load_indexes toLower now im ((k, entry) # rest) =
     (if expired now entry then load_indexes toLower now im rest
      else
        (case IndexManager_Update toLower im k (Value entry) of
           Inl p \<Rightarrow> Inl p
         | Inr (Some err, im') \<Rightarrow> Inr (Some err, im')
         | Inr (None, im') \<Rightarrow> load_indexes toLower now im' rest))"

definition load ::
  "decoder \<Rightarrow> (string \<Rightarrow> string) \<Rightarrow> int64 \<Rightarrow> Store \<Rightarrow> panic + (error option \<times> Store)" where
  "load dec toLower now s =
     (let size = findContentSize (mm s) in
      if size = 0 then Inr (None, s)
      else
        (case dec (take size (mm s)) of
           Inl err \<Rightarrow> Inr (Some (FailedToDecode err), s)
         | Inr tempData \<Rightarrow>
             (case load_indexes toLower now (indexes s) tempData of
                Inl p \<Rightarrow> Inl p
              | Inr (Some err, im) \<Rightarrow> Inr (Some (FailedToUpdateIndexes err), s\<lparr>indexes := im\<rparr>)
              | Inr (None, im) \<Rightarrow>
                  Inr (None, updateStats (s\<lparr>indexes := im, data := tempData\<rparr>) (int size)))))"

text \<open>
  \<open>NewStore\<close> on the bytes of the file at \<open>filepath\<close> (none when the file is new): the
  file is extended with zeros to \<open>InitialSize\<close> and mapped whole. The periodic task it
  starts is not part of the model.
\<close>

definition NewStore ::
  "decoder \<Rightarrow> (string \<Rightarrow> string) \<Rightarrow> int64 \<Rightarrow> byte list \<Rightarrow> int \<Rightarrow> panic + (error + Store)" where
  "NewStore dec toLower now file InitialSize =
     (let file' = (if int (length file) < InitialSize
                   then file @ replicate (nat InitialSize - length file) 0 else file)
      in if file' = [] then Inr (Inl FailedToMapFile)
         else
           (case load dec toLower now
                   \<lparr>mm = file', data = [], dirty = False,
                    stats = zeroStats\<lparr>FileSize := int (length file)\<rparr>,
                    indexes = NewIndexManager, locked = False\<rparr> of
              Inl p \<Rightarrow> Inl p
            | Inr (Some err, s) \<Rightarrow> Inr (Inl (ErrorLoadingExistingData err))
            | Inr (None, s) \<Rightarrow> Inr (Inr s)))"


subsection \<open>Garbage collection and statistics\<close>

fun gc_loop ::
  "(string \<Rightarrow> string) \<Rightarrow> int64 \<Rightarrow> (string \<times> Entry) list \<Rightarrow> Store \<Rightarrow> nat \<Rightarrow> panic + (Store \<times> nat)" where
  "gc_loop toLower now [] s expiredCount = Inr (s, expiredCount)"
| "gc_loop toLower now ((k, entry) # rest) s expiredCount =
     (if 0 <s TTL entry \<and> Timestamp entry + TTL entry <s now then
        (case IndexManager_Remove toLower (indexes s) k of
           Inl p \<Rightarrow> Inl p
         | Inr im \<Rightarrow>
             gc_loop toLower now rest
               (s\<lparr>data := AList.delete k (data s), indexes := im, dirty := True\<rparr>)
               (expiredCount + 1))
      else gc_loop toLower now rest s expiredCount)"

definition gcExpiredEntries :: "(string \<Rightarrow> string) \<Rightarrow> int64 \<Rightarrow> Store \<Rightarrow> panic + Store" where
  "gcExpiredEntries toLower now s =
     (case gc_loop toLower now (data s) s 0 of
        Inl p \<Rightarrow> Inl p
      | Inr (s1, expiredCount) \<Rightarrow>
          if expiredCount > 0
          then Inr (s1\<lparr>stats := (stats s1)\<lparr>ExpiredCount := ExpiredCount (stats s1) + expiredCount,
                                              EntryCount := length (data s1)\<rparr>\<rparr>)
          else Inr s1)"

text \<open>
  \<open>GetStats\<close> writes into \<open>s.stats\<close> and returns a copy of it: the sizes and the index
  counts are assigned, the index entry counts are added to with \<open>+=\<close>.
\<close>

definition GetStats :: "Store \<Rightarrow> StoreStats \<times> Store" where
  "GetStats s =
     (let st = (stats s)\<lparr>EntryCount := length (data s),
                          FileSize := int (length (mm s)),
                          TextIndexes_Count := int (length (im_text (indexes s))),
                          VectorIndexes_Count := int (length (im_vectors (indexes s))),
                          BTreeIndexes_Count := int (length (im_trees (indexes s)))\<rparr>;
          st1 = st\<lparr>TextIndexes_EntryCount :=
                     foldl (\<lambda>n (field, idx). n + int (length (docs idx)))
                       (TextIndexes_EntryCount st) (im_text (indexes s))\<rparr>;
          st2 = st1\<lparr>VectorIndexes_EntryCount :=
                     foldl (\<lambda>n (field, idx). n + int (length (vi_vectors idx)))
                       (VectorIndexes_EntryCount st1) (im_vectors (indexes s))\<rparr>;
          st3 = st2\<lparr>BTreeIndexes_EntryCount :=
                     foldl (\<lambda>n (field, tree). n + tree_Len tree)
                       (BTreeIndexes_EntryCount st2) (im_trees (indexes s))\<rparr>
      in (st3, s\<lparr>stats := st3\<rparr>))"

subsection \<open>Search planner\<close>

record SearchQuery =
  QText :: string
  QVector :: "real list"
  QFilters :: "(string \<times> val) list"
  MaxResults :: int
  MinScore :: real

record SearchResult =
  Key :: string
  RValue :: val
  TextScore :: real
  VecScore :: real
  Combined :: real

definition calculateCombinedScore :: "real \<Rightarrow> real \<Rightarrow> real" where
  "calculateCombinedScore textScore vectorScore = (textScore + vectorScore) / 2"

definition sortSearchResults :: "SearchResult list \<Rightarrow> SearchResult list" where
  "sortSearchResults rs = sort_key (\<lambda>r. - Combined r) rs"

text \<open>
  \<open>combineResults\<close>: the map \<open>scores\<close> is seeded from the text hits, merged with the
  vector hits, cut down to the filter keys inside \<open>if len(filters) > 0\<close>, and read out
  for the keys that the document map still holds.
\<close>

definition addTextResult ::
  "(string \<times> SearchResult) list \<Rightarrow> TextSearchResult \<Rightarrow> (string \<times> SearchResult) list" where
  "addTextResult scores r =
     AList.update (TKey r)
       \<lparr>Key = TKey r, RValue = VNil, TextScore = TScore r, VecScore = 0, Combined = 0\<rparr> scores"

definition addVectorResult ::
  "(string \<times> SearchResult) list \<Rightarrow> VectorSearchResult \<Rightarrow> (string \<times> SearchResult) list" where
  "addVectorResult scores r =
     (case map_of scores (VKey r) of
        Some result \<Rightarrow>
          AList.update (VKey r)
            (result\<lparr>VecScore := VScore r,
                    Combined := calculateCombinedScore (TextScore result) (VScore r)\<rparr>) scores
      | None \<Rightarrow>
          AList.update (VKey r)
            \<lparr>Key = VKey r, RValue = VNil, TextScore = 0, VecScore = VScore r,
             Combined = VScore r\<rparr> scores)"

definition applyFilters ::
  "(string \<times> SearchResult) list \<Rightarrow> string list \<Rightarrow> (string \<times> SearchResult) list" where
  "applyFilters scores filters =
     (if length filters > 0 then
        foldl (\<lambda>filtered k.
                 case map_of scores k of
                   Some result \<Rightarrow> AList.update k result filtered
                 | None \<Rightarrow> filtered)
          [] filters
      else scores)"

definition attachValues ::
  "(string \<times> Entry) list \<Rightarrow> (string \<times> SearchResult) list \<Rightarrow> SearchResult list" where
  "attachValues d scores =
     concat (map (\<lambda>(k, result).
                    case map_of d k of
                      Some entry \<Rightarrow> [result\<lparr>RValue := Value entry\<rparr>]
                    | None \<Rightarrow> [])
               scores)"

definition combineResults ::
  "Store \<Rightarrow> TextSearchResult list \<Rightarrow> VectorSearchResult list \<Rightarrow> string list \<Rightarrow> SearchResult list" where
  "combineResults s txt vector filters =
     (let scores = foldl addTextResult [] txt;
          scores1 = foldl addVectorResult scores vector;
          scores2 = applyFilters scores1 filters
      in attachValues (data s) scores2)"

fun vectorStage ::
  "(string \<times> VectorIndex) list \<Rightarrow> real list \<Rightarrow> int \<Rightarrow> VectorSearchResult list
     \<Rightarrow> panic + (error + VectorSearchResult list)" where
  "vectorStage [] query k vectorResults = Inr (Inr vectorResults)"
| "vectorStage ((field, idx) # rest) query k vectorResults =
     (case VectorIndex_Search idx query k of
        Inl p \<Rightarrow> Inl p
      | Inr (Inl err) \<Rightarrow> Inr (Inl (VectorSearchError err))
      | Inr (Inr results) \<Rightarrow> vectorStage rest query k (vectorResults @ results))"

definition textStage ::
  "(string \<Rightarrow> string) \<Rightarrow> (string \<times> TrigramIndex) list \<Rightarrow> SearchQuery \<Rightarrow> TextSearchResult list" where
  "textStage toLower ts query =
     (if QText query \<noteq> [] then
        concat (map (\<lambda>(field, idx).
                       FuzzySearch toLower idx (QText query) (MinScore query) (MaxResults query))
                  ts)
      else [])"

definition Search ::
  "(string \<Rightarrow> string) \<Rightarrow> Store \<Rightarrow> SearchQuery \<Rightarrow> panic + (error + SearchResult list)" where
  "Search toLower s query =
     (let textResults = textStage toLower (im_text (indexes s)) query in
      case (if length (QVector query) > 0
            then vectorStage (im_vectors (indexes s)) (QVector query) (MaxResults query) []
            else Inr (Inr [])) of
        Inl p \<Rightarrow> Inl p
      | Inr (Inl err) \<Rightarrow> Inr (Inl err)
      | Inr (Inr vectorResults) \<Rightarrow>
          (case (if length (QFilters query) > 0
                 then IndexManager_Search (indexes s) (QFilters query)
                 else Inr (Inr [])) of
             Inl p \<Rightarrow> Inl p
           | Inr (Inl err) \<Rightarrow> Inr (Inl (FilterSearchError err))
           | Inr (Inr filterResults) \<Rightarrow>
               (let combined = sortSearchResults
                                 (combineResults s textResults vectorResults filterResults)
                in if MaxResults query > 0 \<and> int (length combined) > MaxResults query
                   then Inr (Inr (take (nat (MaxResults query)) combined))
                   else Inr (Inr combined))))"


subsection \<open>Concrete inputs\<close>

text \<open>
  \<open>blankStore n\<close> is the store that \<open>NewStore\<close> returns for a new file and
  \<open>InitialSize = n\<close>. \<open>toLowerASCII\<close> is \<open>strings.ToLower\<close> on ASCII text: the
  letters A to Z get bit 5 set.
\<close>

definition blankStore :: "nat \<Rightarrow> Store" where
  "blankStore n =
     \<lparr>mm = replicate n 0, data = [], dirty = False, stats = zeroStats\<lparr>FileSize := 0\<rparr>,
      indexes = NewIndexManager, locked = False\<rparr>"

definition toLowerASCII :: "string \<Rightarrow> string" where
  "toLowerASCII =
     map (\<lambda>c. if CHR ''A'' \<le> c \<and> c \<le> CHR ''Z''
              then (case c of Char b0 b1 b2 b3 b4 b5 b6 b7 \<Rightarrow> Char b0 b1 b2 b3 b4 True b6 b7)
              else c)"

text \<open>The existence test that \<open>AddIndex\<close> and \<open>RemoveIndex\<close> make, per index type.\<close>

definition indexExists :: "IndexManager \<Rightarrow> string \<Rightarrow> string \<Rightarrow> bool" where
  "indexExists im field indexType \<longleftrightarrow>
     (indexType = ''btree'' \<and> map_of (im_trees im) field \<noteq> None)
     \<or> (indexType = ''vector'' \<and> map_of (im_vectors im) field \<noteq> None)
     \<or> (indexType = ''text'' \<and> map_of (im_text im) field \<noteq> None)"


text \<open>
  A stand-in for the encoder in concrete inputs: one line per key. Only the length of
  its output matters where it is used.
\<close>

definition keyLines :: encoder where
  "keyLines m = Inr (concat (map (\<lambda>(k, entry). map (\<lambda>c. of_nat (of_char c)) k @ [10]) m))"

subsection \<open>Notions used in the statements\<close>

text \<open>
  The posting set of a trigram (empty when the index has none), and, in the words of the
  specification, the number of query trigrams whose posting contains a key.
\<close>

definition posting :: "(string \<times> string list) list \<Rightarrow> string \<Rightarrow> string list" where
  "posting tg trigram = (case map_of tg trigram of Some ds \<Rightarrow> ds | None \<Rightarrow> [])"

definition matchCount :: "(string \<times> string list) list \<Rightarrow> string list \<Rightarrow> string \<Rightarrow> nat" where
  "matchCount tg queryTrigrams k = length (filter (\<lambda>t. k \<in> set (posting tg t)) queryTrigrams)"

text \<open>
  Readings of the loops of \<open>TrigramIndex.Search\<close> for the proofs: the count a key has in
  \<open>scores\<close>, the counting loop from a given \<open>scores\<close>, and the result built for one key.
\<close>

definition scoreOf :: "(string \<times> nat) list \<Rightarrow> string \<Rightarrow> nat" where
  "scoreOf scores k = (case map_of scores k of None \<Rightarrow> 0 | Some n \<Rightarrow> n)"

definition countFrom ::
  "(string \<times> string list) list \<Rightarrow> (string \<times> nat) list \<Rightarrow> string list \<Rightarrow> (string \<times> nat) list" where
  "countFrom tg sc qs =
     foldl (\<lambda>scores trigram.
              case map_of tg trigram of
                Some ds \<Rightarrow> foldl bumpScore scores ds
              | None \<Rightarrow> scores)
       sc qs"

definition positive :: "(string \<times> nat) list \<Rightarrow> bool" where
  "positive sc \<longleftrightarrow> (\<forall>k n. map_of sc k = Some n \<longrightarrow> 0 < n)"

definition toResult :: "TrigramIndex \<Rightarrow> nat \<Rightarrow> string \<times> nat \<Rightarrow> TextSearchResult" where
  "toResult ti n = (\<lambda>(doc, matches).
       \<lparr>TKey = doc, TScore = real matches / real n,
        TText = (case map_of (docs ti) doc of Some t \<Rightarrow> t | None \<Rightarrow> [])\<rparr>)"

text \<open>
  The invariant of a trigram index: posting sets hold no key twice, and a key is in the
  posting of a trigram exactly when the text remembered for the key has that trigram.
\<close>

definition ti_inv :: "(string \<Rightarrow> string) \<Rightarrow> TrigramIndex \<Rightarrow> bool" where
  "ti_inv toLower ti \<longleftrightarrow>
     (\<forall>t. distinct (posting (trigrams ti) t))
     \<and> (\<forall>t k. k \<in> set (posting (trigrams ti) t) \<longleftrightarrow>
            (\<exists>txt. map_of (docs ti) k = Some txt \<and> t \<in> set (generateTrigrams toLower txt)))"

text \<open>In \<open>combineResults\<close> every result is stored under its own key.\<close>

definition keyed :: "(string \<times> SearchResult) list \<Rightarrow> bool" where
  "keyed scores \<longleftrightarrow> (\<forall>k r. (k, r) \<in> set scores \<longrightarrow> Key r = k)"


section \<open>Properties\<close>

lemmas eval_defs =
  IndexManager_Update_def update_vectors_def update_text_def VectorIndex_Update_def
  TrigramIndex_Update_def NewIndexManager_def NewVectorIndex_def NewTrigramIndex_def
  CreateIndex_def AddIndex_def blankStore_def Set_def updateWriteStats_def zeroStats_def
  ReplaceOrInsert_def items_find_def sort_Search.simps Less_def
  generateTrigrams_def addDocumentTrigram_def toLowerASCII_def

lemma NewStore_blank:
  "0 < n \<Longrightarrow> NewStore dec toLower now [] (int n) = Inr (Inr (blankStore n))"
  by (simp add: NewStore_def load_def findContentSize_def blankStore_def)

subsection \<open>Index creation\<close>

text \<open>
  C8, as stated: \<open>CreateIndex\<close> succeeds for the types text, vector and ordered, and
  returns an unknown-index-type error for every other type. The code knows the ordered
  index under the name \<open>btree\<close>: \<open>ordered\<close> is refused and \<open>btree\<close> is accepted.
\<close>

theorem CreateIndex_ordered_counterexample:
  "CreateIndex (blankStore 8) ''tag'' ''ordered''
     = (Some (UnknownIndexType ''ordered''), blankStore 8)
   \<and> fst (CreateIndex (blankStore 8) ''tag'' ''btree'') = None"
  by (simp add: CreateIndex_def AddIndex_def blankStore_def NewIndexManager_def)

text \<open>
  C8, amended: \<open>CreateIndex\<close> succeeds for every type among text, vector and btree: the
  index exists afterwards, and the store is unchanged when it existed before. For every
  other type it returns the unknown-index-type error and leaves the store as it was.
\<close>

theorem CreateIndex_index_types:
  "(indexType \<in> {''text'', ''vector'', ''btree''} \<longrightarrow>
      fst (CreateIndex s field indexType) = None
      \<and> indexExists (indexes (snd (CreateIndex s field indexType))) field indexType
      \<and> (indexExists (indexes s) field indexType \<longrightarrow> snd (CreateIndex s field indexType) = s))
   \<and> (indexType \<notin> {''text'', ''vector'', ''btree''} \<longrightarrow>
      CreateIndex s field indexType = (Some (UnknownIndexType indexType), s))"
  by (auto simp: CreateIndex_def AddIndex_def indexExists_def update_conv')

theorem CreateIndex_index_types_witness:
  "fst (CreateIndex (blankStore 8) ''title'' ''text'') = None
   \<and> indexExists (indexes (snd (CreateIndex (blankStore 8) ''title'' ''text''))) ''title'' ''text''
   \<and> CreateIndex (blankStore 8) ''title'' ''yaml'' = (Some (UnknownIndexType ''yaml''), blankStore 8)"
  using CreateIndex_index_types [of "''text''" "blankStore 8" "''title''"]
    CreateIndex_index_types [of "''yaml''" "blankStore 8" "''title''"]
  by simp

subsection \<open>Removal from the ordered index\<close>

text \<open>
  The probe \<open>indexItem{key, nil}\<close> is never less than anything, so the search ends
  behind the last item, and the last item is then compared with the probe: a panic for
  every tree whose greatest item holds a string, an int or a float.
\<close>

lemma Less_nil_probe: "Less \<lparr>item_key = k, item_value = VNil\<rparr> x = Inr False"
  by (simp add: Less_def)

lemma sort_Search_never:
  "i \<le> j \<Longrightarrow> (\<And>h. f h = Inr False) \<Longrightarrow> sort_Search i j f = Inr j"
proof (induction i j f rule: sort_Search.induct)
  case (1 i j f)
  show ?case
  proof (cases "i < j")
    case True
    then have "sort_Search ((i + j) div 2 + 1) j f = Inr j"
      using 1 by (intro "1.IH"(1) [of False]) auto
    then show ?thesis
      using True 1(4) by (subst sort_Search.simps) simp
  next
    case False
    then show ?thesis using 1(3) by (subst sort_Search.simps) simp
  qed
qed

lemma tree_Delete_nil_probe:
  assumes "t \<noteq> []"
    and "item_value (last t) \<in> range VString \<union> range VInt \<union> range VFloat"
  shows "tree_Delete t \<lparr>item_key = k, item_value = VNil\<rparr> = Inl InterfaceConversion"
proof -
  have s: "sort_Search 0 (length t) (\<lambda>i. Less \<lparr>item_key = k, item_value = VNil\<rparr> (t ! i))
             = Inr (length t)"
    by (rule sort_Search_never) (simp_all add: Less_nil_probe)
  have l: "t ! (length t - Suc 0) = last t"
    using assms(1) by (simp add: last_conv_nth)
  have "Less (last t) \<lparr>item_key = k, item_value = VNil\<rparr> = Inl InterfaceConversion"
    using assms(2) by (auto simp: Less_def)
  then show ?thesis
    using assms(1) by (simp add: tree_Delete_def items_find_def s l)
qed

text \<open>
  C3: \<open>IndexManager.Remove\<close> completes without a panic for every key and index state,
  ordered indexes with string items included, and removes exactly the key's items.
  Evaluated on the store that has a B-tree index on \<open>tag\<close> and the document \<open>k1\<close>
  with \<open>tag: red\<close>: the probe reaches \<open>Less\<close> as the argument of the stored item, whose
  type assertion panics, and \<open>Delete\<close> panics with it. Evaluated on a store whose index
  on \<open>flag\<close> holds the boolean item of \<open>k2\<close>, and where \<open>k1\<close> is a document that is
  not in the index: \<open>Delete\<close> of \<open>k1\<close> removes the item of \<open>k2\<close>.
\<close>

theorem Remove_btree_string_panics:
  "(\<exists>s1 s2. CreateIndex (blankStore 8) ''tag'' ''btree'' = (None, s1)
     \<and> Set toLowerASCII 10 s1 ''k1'' (VMap [(''tag'', VString ''red'')]) = Inr (None, s2)
     \<and> IndexManager_Remove toLowerASCII (indexes s2) ''k1'' = Inl InterfaceConversion
     \<and> Delete toLowerASCII s2 ''k1'' = Inl InterfaceConversion)
   \<and> (\<exists>s1 s2 s3 s4. CreateIndex (blankStore 8) ''flag'' ''btree'' = (None, s1)
     \<and> Set toLowerASCII 10 s1 ''k2'' (VMap [(''flag'', VBool True)]) = Inr (None, s2)
     \<and> Set toLowerASCII 11 s2 ''k1'' (VInt 1) = Inr (None, s3)
     \<and> im_trees (indexes s3) = [(''flag'', [\<lparr>item_key = ''k2'', item_value = VBool True\<rparr>])]
     \<and> Delete toLowerASCII s3 ''k1'' = Inr s4
     \<and> im_trees (indexes s4) = [(''flag'', [])])"
  by (simp add: eval_defs Delete_def IndexManager_Remove_def tree_Delete_def)

subsection \<open>Vector dimension mismatch in Set\<close>

text \<open>\<open>IndexManager.Update\<close> and \<open>Set\<close> return no error, whatever the input.\<close>

lemma Update_never_errors:
  "IndexManager_Update toLower im k v = Inr (err, im') \<Longrightarrow> err = None"
  by (auto simp: IndexManager_Update_def split: val.splits sum.splits)

lemma Set_never_errors:
  "Set toLower now s k v = Inr (err, s') \<Longrightarrow> err = None"
  by (auto simp: Set_def Let_def split: sum.splits option.splits dest: Update_never_errors)

text \<open>
  C5: with a vector index on the field, \<open>Set\<close> of a document whose vector has another
  length returns the dimension-mismatch error. Evaluated with the index of dimension 384
  on \<open>embedding\<close> and a vector of length 3: \<open>VectorIndex.Update\<close> reports the mismatch,
  \<open>IndexManager.Update\<close> drops it, and \<open>Set\<close> returns no error. The indexes stay as they
  were.
\<close>

theorem Set_dimension_mismatch_no_error:
  "\<exists>s1 s2. CreateIndex (blankStore 8) ''embedding'' ''vector'' = (None, s1)
     \<and> fst (VectorIndex_Update (NewVectorIndex 384) ''a'' [1, 0, 0])
         = Some (VectorDimensionMismatch 384 3)
     \<and> Set toLowerASCII 10 s1 ''a'' (VMap [(''embedding'', VFloats [1, 0, 0])]) = Inr (None, s2)
     \<and> indexes s2 = indexes s1"
  by (simp add: eval_defs)

subsection \<open>Statistics\<close>

text \<open>
  Each \<open>GetStats\<close> adds the current number of text-index entries to the count that the
  call before left in \<open>s.stats\<close>.
\<close>

lemma foldl_add_sum:
  "foldl (\<lambda>n (field, idx). n + g idx) a xs = a + sum_list (map (\<lambda>(field, idx). g idx) xs)"
  for a :: int
  by (induction xs arbitrary: a) (auto simp: case_prod_beta)

lemma GetStats_text_count:
  "TextIndexes_EntryCount (fst (GetStats s))
     = TextIndexes_EntryCount (stats s)
       + sum_list (map (\<lambda>(field, idx). int (length (docs idx))) (im_text (indexes s)))"
  by (simp add: GetStats_def Let_def foldl_add_sum)

lemma GetStats_indexes: "indexes (snd (GetStats s)) = indexes s"
  by (simp add: GetStats_def Let_def)

lemma GetStats_stats: "stats (snd (GetStats s)) = fst (GetStats s)"
  by (simp add: GetStats_def Let_def)

lemma GetStats_twice:
  "TextIndexes_EntryCount (fst (GetStats (snd (GetStats s))))
     = TextIndexes_EntryCount (fst (GetStats s))
       + sum_list (map (\<lambda>(field, idx). int (length (docs idx))) (im_text (indexes s)))"
  by (simp add: GetStats_text_count [of "snd (GetStats s)"] GetStats_indexes GetStats_stats)

text \<open>
  C9: two \<open>GetStats\<close> calls in a row return equal snapshots, and the index entry counts
  are the current numbers of entries. Evaluated on a store with one text index holding
  one document: the first call reports one entry, the second reports two.
\<close>

theorem GetStats_entry_count_grows:
  "\<exists>s1 s2. CreateIndex (blankStore 8) ''title'' ''text'' = (None, s1)
     \<and> Set toLowerASCII 10 s1 ''a'' (VMap [(''title'', VString ''hello'')]) = Inr (None, s2)
     \<and> TextIndexes_EntryCount (fst (GetStats s2)) = 1
     \<and> TextIndexes_EntryCount (fst (GetStats (snd (GetStats s2)))) = 2
     \<and> fst (GetStats (snd (GetStats s2))) \<noteq> fst (GetStats s2)"
  by (simp add: eval_defs GetStats_def Let_def)

subsection \<open>Filters in the search planner\<close>

text \<open>
  When the filter search returns at least one key, the results are among these keys.
\<close>

lemma set_update_cases:
  "(k', v') \<in> set (AList.update k v al) \<Longrightarrow> (k', v') = (k, v) \<or> (k', v') \<in> set al"
  by (induction al) (auto split: if_splits)

lemma keyed_update: "keyed sc \<Longrightarrow> Key r = k \<Longrightarrow> keyed (AList.update k r sc)"
  unfolding keyed_def by (blast dest: set_update_cases)

lemma keyed_addTextResult: "keyed sc \<Longrightarrow> keyed (addTextResult sc r)"
  by (simp add: addTextResult_def keyed_update)

lemma keyed_addVectorResult: "keyed sc \<Longrightarrow> keyed (addVectorResult sc r)"
proof (cases "map_of sc (VKey r)")
  case None
  assume "keyed sc"
  then show ?thesis using None by (simp add: addVectorResult_def keyed_update)
next
  case (Some result)
  assume k: "keyed sc"
  have "(VKey r, result) \<in> set sc" using Some by (rule map_of_SomeD)
  then have "Key result = VKey r" using k by (simp add: keyed_def)
  then show ?thesis using Some k by (simp add: addVectorResult_def keyed_update)
qed

lemma keyed_foldl_text: "keyed sc \<Longrightarrow> keyed (foldl addTextResult sc rs)"
  by (induction rs arbitrary: sc) (simp_all add: keyed_addTextResult)

lemma keyed_foldl_vector: "keyed sc \<Longrightarrow> keyed (foldl addVectorResult sc rs)"
  by (induction rs arbitrary: sc) (simp_all add: keyed_addVectorResult)

lemma filter_loop_keys:
  "(k, r) \<in> set (foldl (\<lambda>filtered k. case map_of scores k of
                                Some result \<Rightarrow> AList.update k result filtered
                              | None \<Rightarrow> filtered) acc filters)
   \<Longrightarrow> (k, r) \<in> set acc \<or> (k \<in> set filters \<and> map_of scores k = Some r)"
proof (induction filters arbitrary: acc)
  case Nil
  then show ?case by simp
next
  case (Cons f filters)
  show ?case
  proof (cases "map_of scores f")
    case None
    then show ?thesis using Cons.IH [of acc] Cons.prems by auto
  next
    case (Some result)
    then have "(k, r) \<in> set (AList.update f result acc)
                 \<or> (k \<in> set filters \<and> map_of scores k = Some r)"
      using Cons.IH [of "AList.update f result acc"] Cons.prems by simp
    then show ?thesis using Some by (auto dest: set_update_cases)
  qed
qed

lemma applyFilters_keys:
  assumes "filters \<noteq> []" and "(k, r) \<in> set (applyFilters scores filters)"
  shows "k \<in> set filters \<and> (k, r) \<in> set scores"
  using assms filter_loop_keys [of k r scores "[]" filters]
  by (auto simp: applyFilters_def dest: map_of_SomeD)

lemma attachValues_keys:
  assumes "r \<in> set (attachValues d sc)"
  shows "\<exists>k r0. (k, r0) \<in> set sc \<and> Key r = Key r0"
proof -
  let ?f = "\<lambda>(k, result). case map_of d k of
                               Some entry \<Rightarrow> [result\<lparr>RValue := Value entry\<rparr>]
                             | None \<Rightarrow> []"
  have "attachValues d sc = concat (map ?f sc)"
    by (simp add: attachValues_def)
  with assms have "\<exists>p \<in> set sc. r \<in> set (?f p)"
    by simp
  then obtain p where p: "p \<in> set sc" and r: "r \<in> set (?f p)"
    by blast
  obtain k r0 where e: "p = (k, r0)" by (cases p)
  then have "Key r = Key r0" using r by (auto split: option.splits)
  then show ?thesis using p e by blast
qed

lemma combineResults_filtered:
  assumes "filters \<noteq> []" and "r \<in> set (combineResults s txt vector filters)"
  shows "Key r \<in> set filters"
proof -
  let ?sc = "foldl addVectorResult (foldl addTextResult [] txt) vector"
  have k: "keyed ?sc"
    by (intro keyed_foldl_vector keyed_foldl_text) (simp add: keyed_def)
  obtain k' r0 where m: "(k', r0) \<in> set (applyFilters ?sc filters)" and e: "Key r = Key r0"
    using assms(2) attachValues_keys unfolding combineResults_def Let_def by blast
  have "k' \<in> set filters" and "(k', r0) \<in> set ?sc"
    using applyFilters_keys [OF assms(1) m] by simp_all
  then show ?thesis using k e by (simp add: keyed_def)
qed

lemma Search_filtered:
  assumes "QFilters q \<noteq> []"
    and "IndexManager_Search (indexes s) (QFilters q) = Inr (Inr filterResults)"
    and "filterResults \<noteq> []"
    and "Search toLower s q = Inr (Inr results)"
    and "r \<in> set results"
  shows "Key r \<in> set filterResults"
proof -
  obtain vr where "r \<in> set (sortSearchResults
      (combineResults s (textStage toLower (im_text (indexes s)) q) vr filterResults))"
    using assms(1,2,4,5)
    by (auto simp: Search_def Let_def sortSearchResults_def split: sum.splits if_splits
        dest: in_set_takeD)
  then show ?thesis
    using combineResults_filtered [OF assms(3)] by (simp add: sortSearchResults_def)
qed

text \<open>
  C6: with filters in the query, \<open>Search\<close> returns only keys of the filter key set, and
  nothing when that set is empty. Evaluated on a store with a text index on \<open>title\<close>, a
  B-tree index on \<open>tag\<close> and the document \<open>a\<close> with \<open>title: hello\<close> and \<open>tag: red\<close>:
  the filter \<open>tag = blue\<close> matches no key, and the search for \<open>hello\<close> still returns
  \<open>a\<close>.
\<close>

theorem Search_empty_filter_set_ignored:
  "\<exists>s1 s2 s3. CreateIndex (blankStore 8) ''title'' ''text'' = (None, s1)
     \<and> CreateIndex s1 ''tag'' ''btree'' = (None, s2)
     \<and> Set toLowerASCII 10 s2 ''a''
           (VMap [(''title'', VString ''hello''), (''tag'', VString ''red'')]) = Inr (None, s3)
     \<and> IndexManager_Search (indexes s3) [(''tag'', VString ''blue'')] = Inr (Inr [])
     \<and> Search toLowerASCII s3
           \<lparr>QText = ''hello'', QVector = [], QFilters = [(''tag'', VString ''blue'')],
            MaxResults = 0, MinScore = 0\<rparr>
         = Inr (Inr [\<lparr>Key = ''a'',
                      RValue = VMap [(''title'', VString ''hello''), (''tag'', VString ''red'')],
                      TextScore = 1, VecScore = 0, Combined = 0\<rparr>])"
  by (simp add: eval_defs Search_def IndexManager_Search_def AscendGreaterOrEqual_def
      textStage_def FuzzySearch_def TrigramIndex_Search_def countMatches_def bumpScore_def
      sortTextResults_def combineResults_def addTextResult_def applyFilters_def
      attachValues_def sortSearchResults_def)


subsection \<open>Sync when the file has to grow\<close>

lemma resize_locked: "locked s \<Longrightarrow> resize enc now s n = None"
  by (simp add: resize.simps)

lemma growFile_locked: "locked s \<Longrightarrow> growFile enc now s r = None"
  by (simp add: growFile.simps resize_locked split: option.splits)

lemma sync_too_small:
  assumes "dirty s" and "enc (cleanData now (data s)) = Inr bytes"
    and "length (mm s) < length bytes"
  shows "sync enc now s = None"
proof -
  have inner: "sync enc now (s\<lparr>locked := True\<rparr>) = None"
    using assms by (subst sync.simps) (simp add: growFile_locked)
  have "resize enc now s n = None" for n
    by (subst resize.simps) (simp add: inner)
  then have "growFile enc now s r = None" for r
    by (simp add: growFile.simps split: option.splits)
  then show ?thesis
    using assms by (subst sync.simps) simp
qed

text \<open>
  C2: for a dirty store whose encoded clean map is longer than the mapped region, \<open>sync\<close>
  terminates after growing the region. In the code \<open>sync\<close> calls \<open>growFile\<close>, which calls
  \<open>resize\<close>, which takes the lock and calls \<open>sync\<close> again before it truncates; the store
  is still dirty and still too small, so the inner \<open>sync\<close> reaches \<open>resize\<close> with the
  lock held. For every such store \<open>sync\<close> does not return, whether or not the caller
  holds the lock.
\<close>

theorem sync_growth_never_returns:
  assumes "dirty s" and "enc (cleanData now (data s)) = Inr bytes"
    and "length (mm s) < length bytes"
  shows "sync enc now s = None"
  using assms by (rule sync_too_small)

theorem sync_growth_never_returns_witness:
  "dirty ((blankStore 4)\<lparr>data := [(''hello'', \<lparr>Value = VString ''world'', Timestamp = 10, TTL = 0\<rparr>)],
                          dirty := True\<rparr>)
   \<and> keyLines (cleanData 20 (data ((blankStore 4)
         \<lparr>data := [(''hello'', \<lparr>Value = VString ''world'', Timestamp = 10, TTL = 0\<rparr>)],
          dirty := True\<rparr>)))
        = Inr [104, 101, 108, 108, 111, 10]
   \<and> length (mm ((blankStore 4)
         \<lparr>data := [(''hello'', \<lparr>Value = VString ''world'', Timestamp = 10, TTL = 0\<rparr>)],
          dirty := True\<rparr>)) < length [104 :: byte, 101, 108, 108, 111, 10]
   \<and> sync keyLines 20 ((blankStore 4)
         \<lparr>data := [(''hello'', \<lparr>Value = VString ''world'', Timestamp = 10, TTL = 0\<rparr>)],
          dirty := True\<rparr>) = None"
  using sync_growth_never_returns [of "(blankStore 4)
         \<lparr>data := [(''hello'', \<lparr>Value = VString ''world'', Timestamp = 10, TTL = 0\<rparr>)],
          dirty := True\<rparr>" keyLines 20 "[104, 101, 108, 108, 111, 10]"]
  by (simp add: blankStore_def keyLines_def cleanData_def)

subsection \<open>Vector search with \<open>k = 0\<close>\<close>

lemma vectorStage_zero:
  "\<forall>(field, idx) \<in> set vs. vi_dim idx = int (length query) \<Longrightarrow>
   vectorStage vs query 0 acc = Inr (Inr acc)"
  by (induction vs arbitrary: acc) (auto simp: VectorIndex_Search_def Let_def)

text \<open>
  C10: \<open>VectorIndex.Search\<close> with \<open>k = 0\<close> and a query of the index's dimension returns
  the empty list. So a \<open>Store.Search\<close> with a vector and \<open>MaxResults = 0\<close> (every vector
  index having the query's dimension) gets no vector hits and equals the search without
  the vector, while the text stage keeps every hit that reaches \<open>MinScore\<close> and the
  final list is the whole sorted combination.
\<close>

theorem Search_MaxResults_zero:
  "(int (length query) = vi_dim vi \<longrightarrow> VectorIndex_Search vi query 0 = Inr (Inr []))
   \<and> (MaxResults q = 0 \<and> QVector q \<noteq> []
        \<and> (\<forall>(field, idx) \<in> set (im_vectors (indexes s)). vi_dim idx = int (length (QVector q))) \<longrightarrow>
      vectorStage (im_vectors (indexes s)) (QVector q) (MaxResults q) [] = Inr (Inr [])
      \<and> Search toLower s q = Search toLower s (q\<lparr>QVector := []\<rparr>)
      \<and> textStage toLower (im_text (indexes s)) q
          = (if QText q \<noteq> [] then
               concat (map (\<lambda>(field, idx). filter (\<lambda>r. MinScore q \<le> TScore r)
                                  (TrigramIndex_Search toLower idx (QText q) 0))
                         (im_text (indexes s)))
             else [])
      \<and> Search toLower s q
          = (case (if length (QFilters q) > 0 then IndexManager_Search (indexes s) (QFilters q)
                   else Inr (Inr [])) of
               Inl p \<Rightarrow> Inl p
             | Inr (Inl err) \<Rightarrow> Inr (Inl (FilterSearchError err))
             | Inr (Inr filterResults) \<Rightarrow>
                 Inr (Inr (sortSearchResults
                   (combineResults s (textStage toLower (im_text (indexes s)) q) [] filterResults)))))"
proof (intro conjI impI)
  show "VectorIndex_Search vi query 0 = Inr (Inr [])" if "int (length query) = vi_dim vi"
    using that by (simp add: VectorIndex_Search_def Let_def)
next
  assume h: "MaxResults q = 0 \<and> QVector q \<noteq> []
        \<and> (\<forall>(field, idx) \<in> set (im_vectors (indexes s)). vi_dim idx = int (length (QVector q)))"
  then show vs: "vectorStage (im_vectors (indexes s)) (QVector q) (MaxResults q) [] = Inr (Inr [])"
    by (simp add: vectorStage_zero)
  have ts: "textStage toLower (im_text (indexes s)) (q\<lparr>QVector := []\<rparr>)
            = textStage toLower (im_text (indexes s)) q"
    by (simp add: textStage_def)
  show "Search toLower s q = Search toLower s (q\<lparr>QVector := []\<rparr>)"
    using h vs by (simp add: Search_def ts Let_def split: sum.splits)
  show "textStage toLower (im_text (indexes s)) q
          = (if QText q \<noteq> [] then
               concat (map (\<lambda>(field, idx). filter (\<lambda>r. MinScore q \<le> TScore r)
                                  (TrigramIndex_Search toLower idx (QText q) 0))
                         (im_text (indexes s)))
             else [])"
    using h by (simp add: textStage_def FuzzySearch_def)
  show "Search toLower s q
          = (case (if length (QFilters q) > 0 then IndexManager_Search (indexes s) (QFilters q)
                   else Inr (Inr [])) of
               Inl p \<Rightarrow> Inl p
             | Inr (Inl err) \<Rightarrow> Inr (Inl (FilterSearchError err))
             | Inr (Inr filterResults) \<Rightarrow>
                 Inr (Inr (sortSearchResults
                   (combineResults s (textStage toLower (im_text (indexes s)) q) [] filterResults))))"
    using h vs by (simp add: Search_def Let_def split: sum.splits)
qed

theorem Search_MaxResults_zero_witness:
  "int (length [1, 0, 0 :: real]) = vi_dim \<lparr>vi_vectors = [(''a'', [1, 0, 0])], vi_dim = 3\<rparr>
   \<and> VectorIndex_Search \<lparr>vi_vectors = [(''a'', [1, 0, 0])], vi_dim = 3\<rparr> [1, 0, 0] 0 = Inr (Inr [])
   \<and> vectorStage [(''embedding'', \<lparr>vi_vectors = [(''a'', replicate 384 0)], vi_dim = 384\<rparr>)]
        (replicate 384 1) 0 [] = Inr (Inr [])
   \<and> Search toLowerASCII
        ((blankStore 8)
           \<lparr>data := [(''a'', \<lparr>Value = VMap [(''embedding'', VFloats (replicate 384 0))],
                            Timestamp = 10, TTL = 0\<rparr>)],
            indexes := \<lparr>im_trees = [],
              im_vectors = [(''embedding'', \<lparr>vi_vectors = [(''a'', replicate 384 0)], vi_dim = 384\<rparr>)],
              im_text = []\<rparr>\<rparr>)
        \<lparr>QText = [], QVector = replicate 384 1, QFilters = [], MaxResults = 0, MinScore = 0\<rparr>
       = Inr (Inr [])"
proof -
  let ?vi = "\<lparr>vi_vectors = [(''a'', [1, 0, 0 :: real])], vi_dim = 3\<rparr>"
  let ?wi = "\<lparr>vi_vectors = [(''a'', replicate 384 (0 :: real))], vi_dim = 384\<rparr>"
  let ?q = "\<lparr>QText = [], QVector = replicate 384 1, QFilters = [], MaxResults = 0, MinScore = 0\<rparr>"
  let ?s = "(blankStore 8)
           \<lparr>data := [(''a'', \<lparr>Value = VMap [(''embedding'', VFloats (replicate 384 0))],
                            Timestamp = 10, TTL = 0\<rparr>)],
            indexes := \<lparr>im_trees = [], im_vectors = [(''embedding'', ?wi)], im_text = []\<rparr>\<rparr>"
  note t = Search_MaxResults_zero [of "[1, 0, 0]" ?vi ?q ?s toLowerASCII]
  have d: "int (length [1, 0, 0 :: real]) = vi_dim ?vi" by simp
  have h: "MaxResults ?q = 0 \<and> QVector ?q \<noteq> []
        \<and> (\<forall>(field, idx) \<in> set (im_vectors (indexes ?s)). vi_dim idx = int (length (QVector ?q)))"
    by simp
  have 1: "VectorIndex_Search ?vi [1, 0, 0] 0 = Inr (Inr [])"
    using t [THEN conjunct1] d by blast
  note r = t [THEN conjunct2, rule_format, OF h]
  have 2: "vectorStage [(''embedding'', ?wi)] (replicate 384 1) 0 [] = Inr (Inr [])"
    using r [THEN conjunct1] by simp
  have 3: "Search toLowerASCII ?s ?q = Inr (Inr [])"
    using r [THEN conjunct2, THEN conjunct2, THEN conjunct2]
    by (simp add: textStage_def combineResults_def applyFilters_def attachValues_def
      sortSearchResults_def)
  show ?thesis using d 1 2 3 by blast
qed

subsection \<open>Expiry after SetWithTTL\<close>

text \<open>Rounding to the nearest integer, and to the nearest binary64 number.\<close>

lemma roundHalfEven_int [simp]: "roundHalfEven (of_int m) = m"
  by (simp add: roundHalfEven_def)

lemma roundHalfEven_numeral [simp]: "roundHalfEven (numeral m) = numeral m"
  using roundHalfEven_int [of "numeral m"] by simp


lemma float64_zero [simp]: "float64 0 = 0"
  by (simp add: float64_def)




























subsection \<open>Trigram search\<close>

lemma map_of_bumpScore:
  "map_of (bumpScore sc d) k = (if k = d then Some (scoreOf sc d + 1) else map_of sc k)"
  by (simp add: bumpScore_def scoreOf_def update_conv' split: option.splits)

lemma map_of_foldl_bumpScore:
  "map_of (foldl bumpScore sc ds) k
     = (if k \<in> set ds then Some (scoreOf sc k + count_list ds k) else map_of sc k)"
proof (induction ds arbitrary: sc)
  case Nil
  then show ?case by simp
next
  case (Cons d ds)
  show ?case
    by (simp add: Cons.IH map_of_bumpScore scoreOf_def)
qed

lemma distinct_bumpScore: "distinct (map fst sc) \<Longrightarrow> distinct (map fst (bumpScore sc d))"
  by (simp add: bumpScore_def distinct_update)

lemma distinct_foldl_bumpScore:
  "distinct (map fst sc) \<Longrightarrow> distinct (map fst (foldl bumpScore sc ds))"
  by (induction ds arbitrary: sc) (simp_all add: distinct_bumpScore)

lemma countFrom_Nil: "countFrom tg sc [] = sc"
  by (simp add: countFrom_def)

lemma countFrom_Cons:
  "countFrom tg sc (t # qs) = countFrom tg (foldl bumpScore sc (posting tg t)) qs"
  by (simp add: countFrom_def posting_def split: option.splits)

lemma distinct_countFrom:
  "distinct (map fst sc) \<Longrightarrow> distinct (map fst (countFrom tg sc qs))"
  by (induction qs arbitrary: sc) (simp_all add: countFrom_Nil countFrom_Cons distinct_foldl_bumpScore)

lemma scoreOf_foldl_bumpScore:
  "scoreOf (foldl bumpScore sc ds) k = scoreOf sc k + count_list ds k"
  by (simp add: scoreOf_def map_of_foldl_bumpScore count_list_0_iff split: option.splits)

lemma scoreOf_countFrom:
  "scoreOf (countFrom tg sc qs) k
     = scoreOf sc k + sum_list (map (\<lambda>t. count_list (posting tg t) k) qs)"
  by (induction qs arbitrary: sc) (simp_all add: countFrom_Nil countFrom_Cons scoreOf_foldl_bumpScore)

lemma positive_foldl_bumpScore: "positive sc \<Longrightarrow> positive (foldl bumpScore sc ds)"
  by (auto simp: positive_def map_of_foldl_bumpScore count_list_0_iff split: if_splits)

lemma positive_countFrom: "positive sc \<Longrightarrow> positive (countFrom tg sc qs)"
  by (induction qs arbitrary: sc) (simp_all add: countFrom_Nil countFrom_Cons positive_foldl_bumpScore)

lemma countMatches_countFrom: "countMatches tg qs = countFrom tg [] qs"
  by (simp add: countMatches_def countFrom_def)

lemma count_list_distinct:
  "distinct xs \<Longrightarrow> count_list xs x = (if x \<in> set xs then 1 else 0)"
  by (induction xs) auto

lemma sum_count_distinct:
  assumes "\<forall>t ds. map_of tg t = Some ds \<longrightarrow> distinct ds"
  shows "sum_list (map (\<lambda>t. count_list (posting tg t) k) qs) = matchCount tg qs k"
proof -
  have d: "distinct (posting tg t)" for t
  proof (cases "map_of tg t")
    case None
    then show ?thesis by (simp add: posting_def)
  next
    case (Some ds)
    then have "distinct ds" using assms by blast
    then show ?thesis by (simp add: posting_def Some)
  qed
  have c: "count_list (posting tg t) k = (if k \<in> set (posting tg t) then 1 else 0)" for t
    using d [of t] by (rule count_list_distinct)
  show ?thesis
    unfolding matchCount_def by (induction qs) (simp_all add: c)
qed

lemma map_of_countMatches:
  assumes "\<forall>t ds. map_of tg t = Some ds \<longrightarrow> distinct ds"
  shows "map_of (countMatches tg qs) k
           = (if matchCount tg qs k = 0 then None else Some (matchCount tg qs k))"
proof -
  have p: "positive (countMatches tg qs)"
    unfolding countMatches_countFrom by (rule positive_countFrom) (simp add: positive_def)
  have s: "scoreOf (countMatches tg qs) k = matchCount tg qs k"
  proof -
    have "scoreOf [] k = 0" by (simp add: scoreOf_def)
    then show ?thesis
      by (simp add: countMatches_countFrom scoreOf_countFrom sum_count_distinct [OF assms])
  qed
  show ?thesis
  proof (cases "map_of (countMatches tg qs) k")
    case None
    then show ?thesis using s by (simp add: scoreOf_def)
  next
    case (Some n)
    then have "0 < n" using p by (simp add: positive_def)
    then show ?thesis using s Some by (simp add: scoreOf_def)
  qed
qed


lemma Search_all:
  "TrigramIndex_Search toLower ti query 0
     = sortTextResults (map (toResult ti (length (generateTrigrams toLower query)))
         (countMatches (trigrams ti) (generateTrigrams toLower query)))"
  by (simp add: TrigramIndex_Search_def toResult_def Let_def)

lemma Search_truncate:
  "TrigramIndex_Search toLower ti query maxResults
     = (if maxResults > 0 then take (nat maxResults) (TrigramIndex_Search toLower ti query 0)
        else TrigramIndex_Search toLower ti query 0)"
  by (simp add: TrigramIndex_Search_def Let_def)

lemma FuzzySearch_truncate:
  "FuzzySearch toLower ti query minScore maxResults
     = (if maxResults > 0
        then take (nat maxResults)
               (filter (\<lambda>r. TScore r \<ge> minScore) (TrigramIndex_Search toLower ti query 0))
        else filter (\<lambda>r. TScore r \<ge> minScore) (TrigramIndex_Search toLower ti query 0))"
  by (simp add: FuzzySearch_def Let_def)

lemma TKey_toResult1: "TKey (toResult ti n p) = fst p"
  by (cases p) (simp add: toResult_def)

lemma TKey_comp: "TKey \<circ> toResult ti n = fst"
  by (simp add: fun_eq_iff TKey_toResult1)

lemma distinct_map_sort_key: "distinct (map g (sort_key f xs)) = distinct (map g xs)"
  by (simp add: distinct_map)

lemma sorted_desc: "sorted_wrt (\<lambda>a b. TScore a \<ge> TScore b) (sortTextResults rs)"
proof -
  have "sorted (map (\<lambda>r. - TScore r) (sortTextResults rs))"
    unfolding sortTextResults_def by (rule sorted_sort_key)
  then show ?thesis by (simp add: sorted_map)
qed

lemma posting_removeDocumentTrigram:
  "posting (removeDocumentTrigram k tg t) t'
     = (if t' = t then removeAll k (posting tg t) else posting tg t')"
  by (auto simp: removeDocumentTrigram_def posting_def Let_def update_conv' delete_conv'
      split: option.splits)

lemma posting_foldl_remove:
  "posting (foldl (removeDocumentTrigram k) tg ts) t'
     = (if t' \<in> set ts then removeAll k (posting tg t') else posting tg t')"
  by (induction ts arbitrary: tg) (auto simp: posting_removeDocumentTrigram)

lemma posting_addDocumentTrigram:
  "posting (addDocumentTrigram k tg t) t'
     = (if t' = t then List.insert k (posting tg t) else posting tg t')"
  by (auto simp: addDocumentTrigram_def posting_def update_conv' split: option.splits)

lemma posting_foldl_add:
  "set (posting (foldl (addDocumentTrigram k) tg ts) t')
     = (if t' \<in> set ts then insert k (set (posting tg t')) else set (posting tg t'))"
  by (induction ts arbitrary: tg) (auto simp: posting_addDocumentTrigram)

lemma distinct_foldl_add:
  "distinct (posting tg t') \<Longrightarrow> distinct (posting (foldl (addDocumentTrigram k) tg ts) t')"
proof (induction ts arbitrary: tg)
  case Nil
  then show ?case by simp
next
  case (Cons a ts)
  have "distinct (posting (addDocumentTrigram k tg a) t')"
    using Cons.prems by (auto simp: posting_addDocumentTrigram)
  then show ?case using Cons.IH by simp
qed

lemma ti_inv_New: "ti_inv toLower NewTrigramIndex"
  by (simp add: ti_inv_def NewTrigramIndex_def posting_def)

lemma ti_inv_Remove:
  assumes "ti_inv toLower ti"
  shows "ti_inv toLower (TrigramIndex_Remove toLower ti k)"
proof (cases "map_of (docs ti) k")
  case None
  then show ?thesis using assms by (simp add: TrigramIndex_Remove_def)
next
  case (Some old)
  let ?ti' = "TrigramIndex_Remove toLower ti k"
  have tg: "trigrams ?ti' = foldl (removeDocumentTrigram k) (trigrams ti) (generateTrigrams toLower old)"
    and dc: "docs ?ti' = AList.delete k (docs ti)"
    using Some by (simp_all add: TrigramIndex_Remove_def removeDocumentTrigrams_def Let_def)
  have d: "distinct (posting (trigrams ?ti') t)" for t
    using assms by (simp add: tg posting_foldl_remove ti_inv_def distinct_removeAll)
  have m: "k' \<in> set (posting (trigrams ?ti') t) \<longleftrightarrow>
        (\<exists>txt'. map_of (docs ?ti') k' = Some txt' \<and> t \<in> set (generateTrigrams toLower txt'))" for t k'
  proof (cases "k' = k")
    case True
    have "k \<notin> set (posting (trigrams ?ti') t)"
      using assms Some by (auto simp: tg posting_foldl_remove ti_inv_def)
    then show ?thesis using True by (simp add: dc delete_conv')
  next
    case False
    have "k' \<in> set (posting (trigrams ?ti') t) \<longleftrightarrow> k' \<in> set (posting (trigrams ti) t)"
      using False by (simp add: tg posting_foldl_remove)
    then show ?thesis using False assms by (simp add: dc delete_conv' ti_inv_def)
  qed
  show ?thesis unfolding ti_inv_def using d m by blast
qed

lemma ti_inv_Update:
  assumes "ti_inv toLower ti"
  shows "ti_inv toLower (TrigramIndex_Update toLower ti k txt)"
proof -
  let ?old = "case map_of (docs ti) k of Some oldText \<Rightarrow> generateTrigrams toLower oldText | None \<Rightarrow> []"
  let ?tg1 = "foldl (removeDocumentTrigram k) (trigrams ti) ?old"
  let ?ti' = "TrigramIndex_Update toLower ti k txt"
  have tg: "trigrams ?ti' = foldl (addDocumentTrigram k) ?tg1 (generateTrigrams toLower txt)"
    and dc: "docs ?ti' = AList.update k txt (docs ti)"
    by (simp_all add: TrigramIndex_Update_def removeDocumentTrigrams_def Let_def split: option.splits)
  have k1: "k \<notin> set (posting ?tg1 t)" for t
    using assms by (auto simp: posting_foldl_remove ti_inv_def split: option.splits)
  have o1: "k' \<in> set (posting ?tg1 t) \<longleftrightarrow> k' \<in> set (posting (trigrams ti) t)" if "k' \<noteq> k" for k' t
    using that by (simp add: posting_foldl_remove)
  have d1: "distinct (posting ?tg1 t)" for t
    using assms by (simp add: posting_foldl_remove ti_inv_def distinct_removeAll)
  have d: "distinct (posting (trigrams ?ti') t)" for t
    unfolding tg by (rule distinct_foldl_add) (rule d1)
  have m: "k' \<in> set (posting (trigrams ?ti') t) \<longleftrightarrow>
        (\<exists>txt'. map_of (docs ?ti') k' = Some txt' \<and> t \<in> set (generateTrigrams toLower txt'))" for t k'
  proof (cases "k' = k")
    case True
    then show ?thesis using k1 [of t] by (simp add: tg dc posting_foldl_add update_conv')
  next
    case False
    then show ?thesis
      using o1 [OF False, of t] assms by (simp add: tg dc posting_foldl_add update_conv' ti_inv_def)
  qed
  show ?thesis unfolding ti_inv_def using d m by blast
qed

lemma ti_inv_distinct:
  "ti_inv toLower ti \<Longrightarrow> \<forall>t ds. map_of (trigrams ti) t = Some ds \<longrightarrow> distinct ds"
  unfolding ti_inv_def posting_def
  by (metis option.simps(5))

text \<open>
  Every index built from \<open>NewTrigramIndex\<close> by \<open>Update\<close> and \<open>Remove\<close> satisfies
  \<open>ti_inv\<close>, by the three lemmas above.

  C7: for every trigram index whose posting sets are sets (no key twice) and every query,
  \<open>Search\<close> without a limit returns exactly the keys found in the posting of some query
  trigram, each once, with score = (number of query trigrams whose posting contains the
  key) / (number of query trigrams), in descending order of score; with
  \<open>maxResults > 0\<close> it returns the first \<open>maxResults\<close> of these. \<open>FuzzySearch\<close>
  returns the unlimited \<open>Search\<close> results without those of score below \<open>minScore\<close>,
  then truncated in the same way. Under the invariant the keys returned are exactly the
  keys whose remembered text shares a trigram with the query.
\<close>

theorem TrigramIndex_Search_spec:
  assumes "\<forall>t ds. map_of (trigrams ti) t = Some ds \<longrightarrow> distinct ds"
  shows "set (map TKey (TrigramIndex_Search toLower ti query 0))
           = {k. \<exists>t \<in> set (generateTrigrams toLower query). k \<in> set (posting (trigrams ti) t)}
     \<and> distinct (map TKey (TrigramIndex_Search toLower ti query 0))
     \<and> (\<forall>r \<in> set (TrigramIndex_Search toLower ti query 0).
          TScore r = real (matchCount (trigrams ti) (generateTrigrams toLower query) (TKey r))
                       / real (length (generateTrigrams toLower query)))
     \<and> sorted_wrt (\<lambda>a b. TScore a \<ge> TScore b) (TrigramIndex_Search toLower ti query 0)
     \<and> TrigramIndex_Search toLower ti query maxResults
         = (if maxResults > 0 then take (nat maxResults) (TrigramIndex_Search toLower ti query 0)
            else TrigramIndex_Search toLower ti query 0)
     \<and> FuzzySearch toLower ti query minScore maxResults
         = (if maxResults > 0
            then take (nat maxResults)
                   (filter (\<lambda>r. TScore r \<ge> minScore) (TrigramIndex_Search toLower ti query 0))
            else filter (\<lambda>r. TScore r \<ge> minScore) (TrigramIndex_Search toLower ti query 0))
     \<and> (ti_inv toLower ti \<longrightarrow>
          set (map TKey (TrigramIndex_Search toLower ti query 0))
            = {k. \<exists>body. map_of (docs ti) k = Some body
                   \<and> set (generateTrigrams toLower body)
                        \<inter> set (generateTrigrams toLower query) \<noteq> {}})"
proof -
  let ?qs = "generateTrigrams toLower query"
  let ?sc = "countMatches (trigrams ti) ?qs"
  let ?all = "TrigramIndex_Search toLower ti query 0"
  note m = map_of_countMatches [OF assms, of ?qs]
  have dk: "distinct (map fst ?sc)"
    unfolding countMatches_countFrom by (rule distinct_countFrom) simp
  have 1: "set (map TKey ?all) = {k. \<exists>t \<in> set ?qs. k \<in> set (posting (trigrams ti) t)}"
  proof -
    have "set (map TKey ?all) = fst ` set ?sc"
      by (simp add: Search_all sortTextResults_def image_image TKey_toResult1)
    also have "\<dots> = dom (map_of ?sc)"
      by (simp add: dom_map_of_conv_image_fst)
    also have "\<dots> = {k. matchCount (trigrams ti) ?qs k \<noteq> 0}"
      by (auto simp: m dom_def)
    also have "\<dots> = {k. \<exists>t \<in> set ?qs. k \<in> set (posting (trigrams ti) t)}"
      by (auto simp: matchCount_def filter_empty_conv)
    finally show ?thesis .
  qed
  have 2: "distinct (map TKey ?all)"
    using dk by (simp add: Search_all sortTextResults_def distinct_map_sort_key TKey_comp)
  have 3: "TScore r = real (matchCount (trigrams ti) ?qs (TKey r)) / real (length ?qs)"
    if "r \<in> set ?all" for r
  proof -
    from that have "r \<in> toResult ti (length ?qs) ` set ?sc"
      by (simp add: Search_all sortTextResults_def)
    then obtain pr where "pr \<in> set ?sc" and "r = toResult ti (length ?qs) pr"
      by blast
    then obtain doc n where p: "(doc, n) \<in> set ?sc" and r: "r = toResult ti (length ?qs) (doc, n)"
      by (metis surj_pair)
    from p dk have "map_of ?sc doc = Some n" by simp
    then have "n = matchCount (trigrams ti) ?qs doc"
      by (simp add: m split: if_splits)
    then show ?thesis using r by (simp add: toResult_def)
  qed
  have 4: "sorted_wrt (\<lambda>a b. TScore a \<ge> TScore b) ?all"
    unfolding Search_all by (rule sorted_desc)
  have 5: "set (map TKey ?all)
            = {k. \<exists>body. map_of (docs ti) k = Some body
                   \<and> set (generateTrigrams toLower body) \<inter> set ?qs \<noteq> {}}"
    if "ti_inv toLower ti"
  proof -
    have "k \<in> set (posting (trigrams ti) t) \<longleftrightarrow>
        (\<exists>body. map_of (docs ti) k = Some body \<and> t \<in> set (generateTrigrams toLower body))" for t k
      using that unfolding ti_inv_def by blast
    then show ?thesis unfolding 1 by blast
  qed
  show ?thesis
    using 1 2 3 4 5 Search_truncate [of toLower ti query maxResults]
      FuzzySearch_truncate [of toLower ti query minScore maxResults]
    by blast
qed

theorem TrigramIndex_Search_spec_witness:
  "TrigramIndex_Search toLowerASCII
       \<lparr>trigrams = [(''hel'', [''a'']), (''ell'', [''a'']), (''llo'', [''a''])],
        docs = [(''a'', ''hello'')]\<rparr> ''Help'' 0
     = [\<lparr>TKey = ''a'', TScore = 1 / 2, TText = ''hello''\<rparr>]
   \<and> matchCount [(''hel'', [''a'']), (''ell'', [''a'']), (''llo'', [''a''])]
         (generateTrigrams toLowerASCII ''Help'') ''a'' = 1
   \<and> length (generateTrigrams toLowerASCII ''Help'') = 2
   \<and> FuzzySearch toLowerASCII
       \<lparr>trigrams = [(''hel'', [''a'']), (''ell'', [''a'']), (''llo'', [''a''])],
        docs = [(''a'', ''hello'')]\<rparr> ''Help'' (3 / 4) 1 = []"
proof -
  let ?ti = "\<lparr>trigrams = [(''hel'', [''a'']), (''ell'', [''a'']), (''llo'', [''a''])],
        docs = [(''a'', ''hello'')]\<rparr>"
  have h: "\<forall>t ds. map_of (trigrams ?ti) t = Some ds \<longrightarrow> distinct ds"
    by (auto split: if_splits)
  note T = TrigramIndex_Search_spec [OF h, of toLowerASCII "''Help''" 1 "3 / 4"]
  have g: "generateTrigrams toLowerASCII ''Help'' = [''hel'', ''elp'']"
    by (simp add: generateTrigrams_def toLowerASCII_def)
  have a: "TrigramIndex_Search toLowerASCII ?ti ''Help'' 0
     = [\<lparr>TKey = ''a'', TScore = 1 / 2, TText = ''hello''\<rparr>]"
    by (simp add: TrigramIndex_Search_def g countMatches_def bumpScore_def sortTextResults_def)
  have m: "matchCount (trigrams ?ti) (generateTrigrams toLowerASCII ''Help'') ''a'' = 1"
    by (simp add: g matchCount_def posting_def)
  have f: "FuzzySearch toLowerASCII ?ti ''Help'' (3 / 4) 1 = []"
    using T a by simp
  show ?thesis using a m f g by simp
qed

subsection \<open>Persistence round trip\<close>















end
